theory Spec2Isabelle
  imports Complex_Main
begin

section \<open>Python values and errors\<close>

text \<open>
  The exceptions the modelled code can raise. \<open>ValidationError\<close> is pydantic's;
  \<open>TypeError\<close>, \<open>AttributeError\<close> and \<open>KeyError\<close> are the interpreter's;
  \<open>ProcessingError\<close> stands for any exception raised by the caller's own code inside a
  tracked scope (the string names it).
\<close>

datatype error =
    ValidationError
  | TypeError
  | AttributeError
  | KeyError
  | ProcessingError string

text \<open>
  \<open>Event.payload\<close> is a \<open>Dict[str, Any]\<close>. The values kept here are the ones that
  decide what \<open>len\<close> does: the sized ones (\<open>str\<close>, \<open>list\<close>) and some that have
  no length.
\<close>

datatype pyval =
    PyNone
  | PyBool bool
  | PyInt int
  | PyStr string
  | PyList "pyval list"

text \<open>\<open>len(x)\<close>: the length of a sized value, \<open>TypeError\<close> for the others.\<close>

fun py_len :: "pyval \<Rightarrow> error + int" where
  "py_len (PyStr s) = Inr (int (length s))"
| "py_len (PyList xs) = Inr (int (length xs))"
| "py_len PyNone = Inl TypeError"
| "py_len (PyBool b) = Inl TypeError"
| "py_len (PyInt n) = Inl TypeError"

text \<open>\<open>d[k]\<close> on a dict: \<open>KeyError\<close> when the key is absent.\<close>

definition getitem :: "(string \<rightharpoonup> pyval) \<Rightarrow> string \<Rightarrow> error + pyval" where
  "getitem d k = (case d k of None \<Rightarrow> Inl KeyError | Some v \<Rightarrow> Inr v)"

text \<open>
  \<open>functools.reduce(f, xs, initial)\<close>, with a step that may raise: the first exception
  ends the fold.
\<close>

fun reduce :: "('a \<Rightarrow> 'b \<Rightarrow> error + 'a) \<Rightarrow> 'b list \<Rightarrow> 'a \<Rightarrow> error + 'a" where
  "reduce f [] s = Inr s"
| "reduce f (r # rs) s = (case f s r of Inl e \<Rightarrow> Inl e | Inr s' \<Rightarrow> reduce f rs s')"


section \<open>Message schema (pydantic\_classes.py)\<close>

text \<open>
  Field names are prefixed where two classes share one (\<open>text\<close>, \<open>choices\<close>,
  \<open>active\<close>, \<open>payload\<close>) or where the name is reserved.
\<close>

record Choice =
  label :: string
  choice_value :: string

record BotButtonMessage =
  button_text :: string
  button_choices :: "Choice list"
  button_active :: bool

record BotDropdownMessage =
  dropdown_text :: string
  dropdown_choices :: "Choice list"
  dropdown_active :: bool

record BotHTMLMessage =
  html :: string

record BotImageMessage =
  url :: string

record BotTextMessage =
  message_text :: string
  useMarkdown :: bool

datatype BotMessageTypes = T_text | T_image | T_html | T_button | T_dropdown

text \<open>The enum's values, and the lookup pydantic does when it is given a string.\<close>

fun BotMessageTypes_value :: "BotMessageTypes \<Rightarrow> string" where
  "BotMessageTypes_value T_text = ''text''"
| "BotMessageTypes_value T_image = ''image''"
| "BotMessageTypes_value T_html = ''html''"
| "BotMessageTypes_value T_button = ''button''"
| "BotMessageTypes_value T_dropdown = ''dropdown''"

definition BotMessageTypes_of_value :: "string \<Rightarrow> BotMessageTypes option" where
  "BotMessageTypes_of_value s =
     (if s = ''text'' then Some T_text
      else if s = ''image'' then Some T_image
      else if s = ''html'' then Some T_html
      else if s = ''button'' then Some T_button
      else if s = ''dropdown'' then Some T_dropdown
      else None)"

text \<open>\<open>BotPayload = Union[...]\<close>: an instance of one of the five message classes.\<close>

datatype BotPayload =
    TextMessage BotTextMessage
  | ImageMessage BotImageMessage
  | HTMLMessage BotHTMLMessage
  | ButtonMessage BotButtonMessage
  | DropdownMessage BotDropdownMessage

text \<open>
  What the two attributes of a \<open>BotMessage\<close> can hold. A value passed to the constructor
  is validated, and what is stored is an enum member and an instance of one of the five
  classes. The declared defaults, the strings \<open>"text"\<close> and \<open>"Hello World"\<close>, are
  stored as they are: pydantic does not validate a default.
\<close>

datatype type_value = Member BotMessageTypes | TypeStr string

datatype payload_value = Model BotPayload | PayloadStr string

record BotMessage =
  message_type :: type_value
  message_payload :: payload_value

text \<open>\<open>payload.text\<close>: three of the five classes have the attribute, a string has not.\<close>

fun payload_text :: "payload_value \<Rightarrow> error + string" where
  "payload_text (Model (TextMessage m)) = Inr (message_text m)"
| "payload_text (Model (ButtonMessage m)) = Inr (button_text m)"
| "payload_text (Model (DropdownMessage m)) = Inr (dropdown_text m)"
| "payload_text (Model (ImageMessage m)) = Inl AttributeError"
| "payload_text (Model (HTMLMessage m)) = Inl AttributeError"
| "payload_text (PayloadStr s) = Inl AttributeError"

text \<open>
  \<^verbatim>\<open>return 0 if self.type != BotMessageTypes.text else len(self.payload.text)\<close>
\<close>

definition messageSize :: "BotMessage \<Rightarrow> error + int" where
  "messageSize m =
     (if message_type m \<noteq> Member T_text then Inr 0
      else (case payload_text (message_payload m) of
              Inl e \<Rightarrow> Inl e
            | Inr s \<Rightarrow> Inr (int (length s))))"


subsection \<open>Constructors\<close>

text \<open>
  A constructor takes each keyword argument as an option: \<open>None\<close> is an argument the
  caller left out. Arguments of the model classes are taken well-typed.

  \<open>BotButtonMessage\<close>: \<open>text\<close> defaults to \<open>""\<close>, \<open>active\<close> to \<open>True\<close>, and
  \<open>choices\<close> is declared \<open>Field(...)\<close>: required, with no constraint on its length.
\<close>

definition new_BotButtonMessage ::
  "string option \<Rightarrow> Choice list option \<Rightarrow> bool option \<Rightarrow> error + BotButtonMessage" where
  "new_BotButtonMessage txt chs act =
     (case chs of
        None \<Rightarrow> Inl ValidationError
      | Some cs \<Rightarrow>
          Inr \<lparr>button_text = (case txt of None \<Rightarrow> '''' | Some t \<Rightarrow> t),
               button_choices = cs,
               button_active = (case act of None \<Rightarrow> True | Some a \<Rightarrow> a)\<rparr>)"

text \<open>\<open>BotDropdownMessage\<close>: the same fields, \<open>choices\<close> defaulting to \<open>[]\<close>.\<close>

definition new_BotDropdownMessage ::
  "string option \<Rightarrow> Choice list option \<Rightarrow> bool option \<Rightarrow> error + BotDropdownMessage" where
  "new_BotDropdownMessage txt chs act =
     Inr \<lparr>dropdown_text = (case txt of None \<Rightarrow> '''' | Some t \<Rightarrow> t),
          dropdown_choices = (case chs of None \<Rightarrow> [] | Some cs \<Rightarrow> cs),
          dropdown_active = (case act of None \<Rightarrow> True | Some a \<Rightarrow> a)\<rparr>"

text \<open>
  \<open>BotMessage\<close>: each field is validated on its own, \<open>type\<close> against the enum and
  \<open>payload\<close> against the union; the class declares no validator that relates the two.
\<close>

fun validate_type :: "type_value option \<Rightarrow> error + type_value" where
  "validate_type None = Inr (TypeStr ''text'')"
| "validate_type (Some (Member t)) = Inr (Member t)"
| "validate_type (Some (TypeStr s)) =
     (case BotMessageTypes_of_value s of
        None \<Rightarrow> Inl ValidationError
      | Some t \<Rightarrow> Inr (Member t))"

text \<open>
  What a caller can pass as \<open>payload\<close>: an instance of one of the five classes, a dict of
  field values, or a value that is neither (a string, a number, \<open>None\<close>, a list).
\<close>

datatype payload_arg =
    Instance BotPayload
  | DictArg "string \<rightharpoonup> pyval"
  | ValueArg pyval

text \<open>
  The validation of \<open>payload\<close> against the union. An instance is kept as it is. A dict is
  handed to pydantic's validation of the union, which tries the member classes and either
  builds an instance of one of them or rejects the dict; which class it builds for a given
  dict is the library's rule (it differs between pydantic versions), so it is a parameter
  \<open>union_of_dict\<close> of the model. What the source fixes is that this validation is given
  the payload alone, never the \<open>type\<close>. Any other value is rejected: no member class
  validates it.
\<close>

fun validate_payload ::
  "((string \<rightharpoonup> pyval) \<Rightarrow> BotPayload option) \<Rightarrow> payload_arg option \<Rightarrow> error + payload_value" where
  "validate_payload union_of_dict None = Inr (PayloadStr ''Hello World'')"
| "validate_payload union_of_dict (Some (Instance p)) = Inr (Model p)"
| "validate_payload union_of_dict (Some (DictArg d)) =
     (case union_of_dict d of
        None \<Rightarrow> Inl ValidationError
      | Some p \<Rightarrow> Inr (Model p))"
| "validate_payload union_of_dict (Some (ValueArg v)) = Inl ValidationError"

definition new_BotMessage ::
  "((string \<rightharpoonup> pyval) \<Rightarrow> BotPayload option) \<Rightarrow>
     type_value option \<Rightarrow> payload_arg option \<Rightarrow> error + BotMessage" where
  "new_BotMessage union_of_dict ty pl =
     (case validate_type ty of
        Inl e \<Rightarrow> Inl e
      | Inr t \<Rightarrow>
          (case validate_payload union_of_dict pl of
             Inl e \<Rightarrow> Inl e
           | Inr p \<Rightarrow> Inr \<lparr>message_type = t, message_payload = p\<rparr>))"

text \<open>
  Agreement of tag and payload, for comparison with what the constructor accepts: the
  payload is an instance of the class that the type tag names.
\<close>

fun shape_matches :: "BotMessageTypes \<Rightarrow> BotPayload \<Rightarrow> bool" where
  "shape_matches T_text (TextMessage m) = True"
| "shape_matches T_image (ImageMessage m) = True"
| "shape_matches T_html (HTMLMessage m) = True"
| "shape_matches T_button (ButtonMessage m) = True"
| "shape_matches T_dropdown (DropdownMessage m) = True"
| "shape_matches t p = False"


section \<open>Events and metrics (pydantic\_classes.py)\<close>

datatype Directions = Incoming | Outgoing

text \<open>
  \<open>sentOn\<close> is a \<open>datetime\<close>, kept as a count of microseconds since the epoch; no
  operation below reads it.
\<close>

record Event =
  event_userId :: string
  event_conversationId :: string
  event_id :: string
  sentOn :: int
  direction :: Directions
  event_payload :: "string \<rightharpoonup> pyval"
  botReply :: "BotMessage list"

text \<open>
  \<open>BotMetrics\<close>. The type \<open>'t\<close> stands for Python's \<open>float\<close>: the code only
  subtracts two of them, so the model fixes nothing else about it. The three nullable
  fields default to \<open>None\<close>, \<open>success\<close> to \<open>True\<close>.
\<close>

record 't BotMetrics =
  event :: "Event option"
  startTime :: "'t option"
  endTime :: "'t option"
  success :: bool

definition new_BotMetrics :: "'t BotMetrics" where
  "new_BotMetrics = \<lparr>event = None, startTime = None, endTime = None, success = True\<rparr>"

text \<open>A Python number: \<open>responseTime\<close> returns a float difference or the int \<open>0\<close>.\<close>

datatype 't number = PInt int | PFloat 't

definition responseTime :: "('t::minus) BotMetrics \<Rightarrow> 't number" where
  "responseTime m =
     (if startTime m \<noteq> None \<and> endTime m \<noteq> None
      then PFloat (the (endTime m) - the (startTime m))
      else PInt 0)"

text \<open>
  The computed fields that read \<open>self.event\<close>: on an unset event the attribute access
  on \<open>None\<close> raises \<open>AttributeError\<close>.
\<close>

definition userInputSize :: "'t BotMetrics \<Rightarrow> error + int" where
  "userInputSize m =
     (case event m of
        None \<Rightarrow> Inl AttributeError
      | Some ev \<Rightarrow>
          (case getitem (event_payload ev) ''text'' of
             Inl e \<Rightarrow> Inl e
           | Inr v \<Rightarrow> py_len v))"

definition add_messageSize :: "int \<Rightarrow> BotMessage \<Rightarrow> error + int" where
  "add_messageSize s r = (case messageSize r of Inl e \<Rightarrow> Inl e | Inr n \<Rightarrow> Inr (s + n))"

definition botOutputSize :: "'t BotMetrics \<Rightarrow> error + int" where
  "botOutputSize m =
     (case event m of
        None \<Rightarrow> Inl AttributeError
      | Some ev \<Rightarrow> reduce add_messageSize (botReply ev) 0)"

definition userId :: "'t BotMetrics \<Rightarrow> error + string" where
  "userId m =
     (case event m of None \<Rightarrow> Inl AttributeError | Some ev \<Rightarrow> Inr (event_userId ev))"

definition conversationId :: "'t BotMetrics \<Rightarrow> error + string" where
  "conversationId m =
     (case event m of
        None \<Rightarrow> Inl AttributeError
      | Some ev \<Rightarrow> Inr (event_conversationId ev))"

definition inputMessageType :: "'t BotMetrics \<Rightarrow> error + pyval" where
  "inputMessageType m =
     (case event m of
        None \<Rightarrow> Inl AttributeError
      | Some ev \<Rightarrow> getitem (event_payload ev) ''type'')"

text \<open>
  The mutators. \<open>trackStart\<close> and \<open>trackEnd\<close> store what \<open>time.time()\<close> returned,
  which the model takes as an argument.
\<close>

definition trackStart :: "'t \<Rightarrow> 't BotMetrics \<Rightarrow> 't BotMetrics" where
  "trackStart now m = m\<lparr>startTime := Some now\<rparr>"

definition trackEnd :: "'t \<Rightarrow> 't BotMetrics \<Rightarrow> 't BotMetrics" where
  "trackEnd now m = m\<lparr>endTime := Some now\<rparr>"

definition captureEvent :: "Event \<Rightarrow> 't BotMetrics \<Rightarrow> 't BotMetrics" where
  "captureEvent ev m = m\<lparr>event := Some ev\<rparr>"


section \<open>Persistence and the tracked scope (metrics.py)\<close>

subsection \<open>Persistence strategies\<close>

text \<open>
  A strategy's \<open>persist\<close> takes the metrics record and acts on a sink of type \<open>'s\<close>;
  it returns the sink after the call, or the exception it raised.

  The base class \<open>PersistMetrics\<close>: the body is \<open>pass\<close>.
\<close>

definition PersistMetrics_persist :: "'t BotMetrics \<Rightarrow> 's \<Rightarrow> error + 's" where
  "PersistMetrics_persist m out = Inr out"

text \<open>
  The console strategy builds a \<open>PrettyTable\<close> with eight field names, adds one row and
  prints the table. A cell keeps the value that was put into the row; the two glyphs of the
  success column are a constructor each, and the last cell is the f-string around the
  rounded response time.
\<close>

datatype glyph = CheckMark | RedCircle

datatype 't cell =
    FloatCell 't
  | GlyphCell glyph
  | StrCell string
  | AnyCell pyval
  | IntCell int
  | InferenceCell "'t number"

record 't PrettyTable =
  field_names :: "string list"
  rows :: "'t cell list list"

text \<open>
  \<open>round(x, 2)\<close>. On a float the result is the float that the built-in computes, a
  parameter \<open>rnd\<close> of the model; an int is returned as it is; \<open>None\<close> has no
  \<open>__round__\<close> and the call raises \<open>TypeError\<close>.
\<close>

fun round2_number :: "('t \<Rightarrow> 't) \<Rightarrow> 't number \<Rightarrow> 't number" where
  "round2_number rnd (PFloat x) = PFloat (rnd x)"
| "round2_number rnd (PInt n) = PInt n"

fun round2_opt :: "('t \<Rightarrow> 't) \<Rightarrow> 't option \<Rightarrow> error + 't" where
  "round2_opt rnd None = Inl TypeError"
| "round2_opt rnd (Some x) = Inr (rnd x)"

definition console_field_names :: "string list" where
  "console_field_names =
     [''When'', ''Success'', ''Conversation ID'', ''User ID'', ''Message type'',
      ''Input size'', ''Output size'', ''Inference Time'']"

text \<open>
  The row's eight expressions are evaluated in the order they are written; the first one
  that raises ends the call, before anything is printed. The sink is the list of tables
  printed so far.
\<close>

definition ConsoleMetrics_persist ::
  "('t \<Rightarrow> 't) \<Rightarrow> ('t::minus) BotMetrics \<Rightarrow> 't PrettyTable list \<Rightarrow> error + 't PrettyTable list" where
  "ConsoleMetrics_persist rnd m out =
     (case round2_opt rnd (startTime m) of
        Inl e \<Rightarrow> Inl e
      | Inr whn \<Rightarrow>
     (case conversationId m of
        Inl e \<Rightarrow> Inl e
      | Inr cid \<Rightarrow>
     (case userId m of
        Inl e \<Rightarrow> Inl e
      | Inr uid \<Rightarrow>
     (case inputMessageType m of
        Inl e \<Rightarrow> Inl e
      | Inr mty \<Rightarrow>
     (case userInputSize m of
        Inl e \<Rightarrow> Inl e
      | Inr isz \<Rightarrow>
     (case botOutputSize m of
        Inl e \<Rightarrow> Inl e
      | Inr osz \<Rightarrow>
          Inr (out @
            [\<lparr>field_names = console_field_names,
              rows = [[FloatCell whn,
                       GlyphCell (if success m then CheckMark else RedCircle),
                       StrCell cid,
                       StrCell uid,
                       AnyCell mty,
                       IntCell isz,
                       IntCell osz,
                       InferenceCell (round2_number rnd (responseTime m))]]\<rparr>])))))))"


subsection \<open>The context manager\<close>

text \<open>
  Records are objects: the body of a scope and the tracker hold references to the same
  one. The store maps an address to the record that lives there; \<open>next_addr\<close> is the
  first address not yet given out. \<open>persist_calls\<close> is the trace of the calls made to a
  strategy's \<open>persist\<close>, each with the record as it was when passed.
\<close>

type_synonym addr = nat

record ('t, 's) world =
  store :: "addr \<Rightarrow> 't BotMetrics"
  next_addr :: addr
  sink :: 's
  persist_calls :: "'t BotMetrics list"

record ('t, 's) TrackChatbotResponseMetrics =
  persist :: "'t BotMetrics \<Rightarrow> 's \<Rightarrow> error + 's"
  chatbotResponsMetrics :: "addr option"

text \<open>\<open>__init__\<close>: the attribute \<open>chatbotResponsMetrics\<close> does not exist yet.\<close>

definition init_tracker ::
  "('t BotMetrics \<Rightarrow> 's \<Rightarrow> error + 's) \<Rightarrow> ('t, 's) TrackChatbotResponseMetrics" where
  "init_tracker p = \<lparr>persist = p, chatbotResponsMetrics = None\<rparr>"

text \<open>
  \<open>__enter__\<close>: \<open>BotMetrics()\<close> allocates a new record, the tracker keeps the
  reference and returns it.
\<close>

definition enter ::
  "('t, 's) TrackChatbotResponseMetrics \<Rightarrow> ('t, 's) world \<Rightarrow>
     addr \<times> ('t, 's) TrackChatbotResponseMetrics \<times> ('t, 's) world" where
  "enter self w =
     (let a = next_addr w in
        (a,
         self\<lparr>chatbotResponsMetrics := Some a\<rparr>,
         w\<lparr>store := (store w)(a := new_BotMetrics), next_addr := Suc a\<rparr>))"

text \<open>
  \<open>__exit__(type, value, traceback)\<close>: \<open>exc\<close> is the exception the body raised, if
  any. The result is what the method returns, or the exception raised while it ran.
\<close>

definition exit_scope ::
  "('t, 's) TrackChatbotResponseMetrics \<Rightarrow> error option \<Rightarrow> ('t, 's) world \<Rightarrow>
     ('t, 's) world \<times> (error + bool)" where
  "exit_scope self exc w =
     (case chatbotResponsMetrics self of
        None \<Rightarrow> (w, Inl AttributeError)
      | Some a \<Rightarrow>
          (let w1 = (if exc \<noteq> None
                     then w\<lparr>store := (store w)(a := (store w a)\<lparr>success := False\<rparr>)\<rparr>
                     else w);
               m = store w1 a;
               w2 = w1\<lparr>persist_calls := persist_calls w1 @ [m]\<rparr>
           in (case persist self m (sink w2) of
                 Inl e \<Rightarrow> (w2, Inl e)
               | Inr out \<Rightarrow> (w2\<lparr>sink := out\<rparr>, Inr True))))"


subsection \<open>Running a scope\<close>

text \<open>
  What the body of a \<open>with\<close> block does with the record it was handed: it calls the
  three mutators, reads computed fields, or fails in its own work.
\<close>

datatype computed =
    ResponseTime | UserInputSize | BotOutputSize | UserId | ConversationId | InputMessageType

datatype 't action =
    CaptureEvent Event
  | TrackStart 't
  | TrackEnd 't
  | Read computed
  | Raise error

fun read_computed :: "computed \<Rightarrow> ('t::minus) BotMetrics \<Rightarrow> error option" where
  "read_computed ResponseTime m = None"
| "read_computed UserInputSize m = (case userInputSize m of Inl e \<Rightarrow> Some e | Inr v \<Rightarrow> None)"
| "read_computed BotOutputSize m = (case botOutputSize m of Inl e \<Rightarrow> Some e | Inr v \<Rightarrow> None)"
| "read_computed UserId m = (case userId m of Inl e \<Rightarrow> Some e | Inr v \<Rightarrow> None)"
| "read_computed ConversationId m = (case conversationId m of Inl e \<Rightarrow> Some e | Inr v \<Rightarrow> None)"
| "read_computed InputMessageType m =
     (case inputMessageType m of Inl e \<Rightarrow> Some e | Inr v \<Rightarrow> None)"

fun step ::
  "addr \<Rightarrow> ('t::minus) action \<Rightarrow> ('t, 's) world \<Rightarrow> ('t, 's) world \<times> error option" where
  "step a (CaptureEvent ev) w = (w\<lparr>store := (store w)(a := captureEvent ev (store w a))\<rparr>, None)"
| "step a (TrackStart now) w = (w\<lparr>store := (store w)(a := trackStart now (store w a))\<rparr>, None)"
| "step a (TrackEnd now) w = (w\<lparr>store := (store w)(a := trackEnd now (store w a))\<rparr>, None)"
| "step a (Read c) w = (w, read_computed c (store w a))"
| "step a (Raise e) w = (w, Some e)"

text \<open>The body runs its actions in order and stops at the first exception.\<close>

fun run_body ::
  "addr \<Rightarrow> ('t::minus) action list \<Rightarrow> ('t, 's) world \<Rightarrow> ('t, 's) world \<times> error option" where
  "run_body a [] w = (w, None)"
| "run_body a (x # xs) w =
     (case step a x w of
        (w', Some e) \<Rightarrow> (w', Some e)
      | (w', None) \<Rightarrow> run_body a xs w')"

text \<open>
  The \<open>with\<close> statement: enter, run the body, call \<open>__exit__\<close> with the body's
  exception. An exception raised by \<open>__exit__\<close> itself propagates; otherwise the body's
  exception propagates unless \<open>__exit__\<close> returned a true value.
\<close>

datatype outcome = Completed | BodyErrorPropagated error | ExitRaised error

definition with_scope ::
  "('t, 's) TrackChatbotResponseMetrics \<Rightarrow> ('t::minus) action list \<Rightarrow> ('t, 's) world \<Rightarrow>
     ('t, 's) TrackChatbotResponseMetrics \<times> ('t, 's) world \<times> outcome" where
  "with_scope self body w =
     (case enter self w of
        (a, self1, w1) \<Rightarrow>
          (case run_body a body w1 of
             (w2, exc) \<Rightarrow>
               (case exit_scope self1 exc w2 of
                  (w3, Inl e) \<Rightarrow> (self1, w3, ExitRaised e)
                | (w3, Inr suppress) \<Rightarrow>
                    (case exc of
                       None \<Rightarrow> (self1, w3, Completed)
                     | Some e \<Rightarrow>
                         if suppress then (self1, w3, Completed)
                         else (self1, w3, BodyErrorPropagated e)))))"

text \<open>
  The exception with which the body of a scope ends when the scope is run from \<open>w\<close>;
  \<open>None\<close> when the body completes.
\<close>

definition body_exception ::
  "('t::minus, 's) TrackChatbotResponseMetrics \<Rightarrow> 't action list \<Rightarrow> ('t, 's) world \<Rightarrow>
     error option" where
  "body_exception self body w =
     (case enter self w of (a, self1, w1) \<Rightarrow> snd (run_body a body w1))"


section \<open>Sample values\<close>

text \<open>
  The event of the spec's scenario: the user wrote \<open>hello\<close>, the bot replied with one
  text message, \<open>hi there\<close>.
\<close>

definition hi_there :: BotMessage where
  "hi_there =
     \<lparr>message_type = Member T_text,
      message_payload = Model (TextMessage \<lparr>message_text = ''hi there'', useMarkdown = True\<rparr>)\<rparr>"

definition hello_event :: Event where
  "hello_event =
     \<lparr>event_userId = ''user-1'', event_conversationId = ''conv-1'', event_id = ''event-1'',
      sentOn = 0, direction = Incoming,
      event_payload = [''text'' \<mapsto> PyStr ''hello'', ''type'' \<mapsto> PyStr ''text''],
      botReply = [hi_there]\<rparr>"

definition abc_text :: BotTextMessage where
  "abc_text = \<lparr>message_text = ''abc'', useMarkdown = True\<rparr>"

definition picture :: BotMessage where
  "picture =
     \<lparr>message_type = Member T_image,
      message_payload = Model (ImageMessage \<lparr>url = ''http://example.org/a.png''\<rparr>)\<rparr>"

text \<open>
  A union validation to run the samples with. It agrees with pydantic's on the two dicts
  used below: \<open>{"text": "hi"}\<close>, for which every version builds the text class, and
  \<open>{"text": 1, "url": 2, "html": 3}\<close>, which each of the five classes rejects (a
  mistyped field in three of them, and in the button class the missing \<open>choices\<close> too).
\<close>

definition sample_union ::
  "(string \<rightharpoonup> pyval) \<Rightarrow> BotPayload option" where
  "sample_union d =
     (case d ''text'' of
        Some (PyStr s) \<Rightarrow> Some (TextMessage \<lparr>message_text = s, useMarkdown = True\<rparr>)
      | _ \<Rightarrow> None)"

definition hi_dict :: "string \<rightharpoonup> pyval" where
  "hi_dict = [''text'' \<mapsto> PyStr ''hi'']"

definition mistyped_dict :: "string \<rightharpoonup> pyval" where
  "mistyped_dict = [''text'' \<mapsto> PyInt 1, ''url'' \<mapsto> PyInt 2, ''html'' \<mapsto> PyInt 3]"

text \<open>A record with both times set, at 1.5 and 4 seconds.\<close>

definition timed_metrics :: "real BotMetrics" where
  "timed_metrics = \<lparr>event = None, startTime = Some 1.5, endTime = Some 4, success = True\<rparr>"

text \<open>A record with the event captured and the start taken, the end not yet.\<close>

definition started_metrics :: "real BotMetrics" where
  "started_metrics = trackStart 10 (captureEvent hello_event new_BotMetrics)"

text \<open>
  A world where nothing was allocated or printed yet, a tracker with the default strategy,
  the console one (rounding left as the identity), a body that runs to its end and one
  that fails.
\<close>

definition empty_world :: "(real, real PrettyTable list) world" where
  "empty_world = \<lparr>store = (\<lambda>a. new_BotMetrics), next_addr = 0, sink = [], persist_calls = []\<rparr>"

definition console_tracker :: "(real, real PrettyTable list) TrackChatbotResponseMetrics" where
  "console_tracker = init_tracker (ConsoleMetrics_persist (\<lambda>x. x))"

definition ok_body :: "real action list" where
  "ok_body = [CaptureEvent hello_event, TrackStart 10, Read BotOutputSize, TrackEnd 12.5]"

definition failing_body :: "real action list" where
  "failing_body = [CaptureEvent hello_event, TrackStart 10, Raise (ProcessingError ''boom'')]"

definition after_failed_scope ::
  "(real, real PrettyTable list) TrackChatbotResponseMetrics \<times>
   (real, real PrettyTable list) world \<times> outcome" where
  "after_failed_scope = with_scope console_tracker failing_body empty_world"

definition second_entry ::
  "addr \<times> (real, real PrettyTable list) TrackChatbotResponseMetrics \<times>
   (real, real PrettyTable list) world" where
  "second_entry = enter (fst after_failed_scope) (fst (snd after_failed_scope))"


section \<open>Auxiliary facts\<close>

lemma BotMessageTypes_of_value_inverse:
  "BotMessageTypes_of_value (BotMessageTypes_value t) = Some t"
  by (cases t) (simp_all add: BotMessageTypes_of_value_def)

lemma validate_type_error: "validate_type ty = Inl e \<Longrightarrow> e = ValidationError"
  by (cases ty rule: validate_type.cases) (auto split: option.splits)

text \<open>
  A text tag on a payload without a \<open>text\<close> attribute: the constructor accepts the
  message and reading its size raises.
\<close>

lemma messageSize_text_tag_on_image:
  "messageSize \<lparr>message_type = Member T_text, message_payload = Model (ImageMessage i)\<rparr> =
     Inl AttributeError"
  by (simp add: messageSize_def)

text \<open>The default-constructed message: its tag is the string, not the enum member.\<close>

lemma new_BotMessage_defaults:
  "new_BotMessage u None None =
     Inr \<lparr>message_type = TypeStr ''text'', message_payload = PayloadStr ''Hello World''\<rparr>"
  "messageSize \<lparr>message_type = TypeStr ''text'', message_payload = PayloadStr ''Hello World''\<rparr> =
     Inr 0"
  by (simp_all add: new_BotMessage_def messageSize_def)

lemma validate_payload_error: "validate_payload u pl = Inl e \<Longrightarrow> e = ValidationError"
  by (cases "(u, pl)" rule: validate_payload.cases) (auto split: option.splits)

text \<open>
  What \<open>messageSize\<close> returns when the tag is an enum member: under the member
  \<open>text\<close> the length of the payload's own text field, under the other four members 0.
\<close>

lemma messageSize_enum_tag:
  "messageSize \<lparr>message_type = Member T_text, message_payload = Model (TextMessage tm)\<rparr> =
     Inr (int (length (message_text tm)))"
  "messageSize \<lparr>message_type = Member T_text, message_payload = Model (ButtonMessage bm)\<rparr> =
     Inr (int (length (button_text bm)))"
  "messageSize \<lparr>message_type = Member T_text, message_payload = Model (DropdownMessage dm)\<rparr> =
     Inr (int (length (dropdown_text dm)))"
  "t \<noteq> T_text \<Longrightarrow> messageSize \<lparr>message_type = Member t, message_payload = p\<rparr> = Inr 0"
  by (simp_all add: messageSize_def)

lemma sample_union_dicts:
  "sample_union hi_dict = Some (TextMessage \<lparr>message_text = ''hi'', useMarkdown = True\<rparr>)"
  "sample_union mistyped_dict = None"
  by (simp_all add: sample_union_def hi_dict_def mistyped_dict_def)

text \<open>The fold of \<open>botOutputSize\<close>, from any starting sum.\<close>

lemma reduce_add_messageSize:
  "list_all2 (\<lambda>r n. messageSize r = Inr n) rs ns \<Longrightarrow>
     reduce add_messageSize rs s = Inr (s + sum_list ns)"
proof (induction rs ns arbitrary: s rule: list_all2_induct)
  case Nil
  show ?case by simp
next
  case (Cons r rs n ns)
  have "add_messageSize s r = Inr (s + n)"
    using Cons.hyps(1) by (simp add: add_messageSize_def)
  then show ?case
    using Cons.IH [of "s + n"] by (simp add: add.assoc)
qed

text \<open>If one reply's size cannot be read, the output size cannot either.\<close>

lemma reduce_add_messageSize_raises:
  "r \<in> set rs \<Longrightarrow> messageSize r = Inl e \<Longrightarrow> \<exists>e'. reduce add_messageSize rs s = Inl e'"
proof (induction rs arbitrary: s)
  case Nil
  then show ?case by simp
next
  case (Cons x xs)
  show ?case
  proof (cases "add_messageSize s x")
    case (Inl e')
    then show ?thesis by simp
  next
    case (Inr s')
    with Cons.prems have "r \<in> set xs"
      by (auto simp: add_messageSize_def)
    from Cons.IH [OF this Cons.prems(2), of s'] Inr show ?thesis by simp
  qed
qed

text \<open>
  No action of a body touches the success flag of its record, another record, the
  allocation counter, the sink or the trace.
\<close>

lemma step_frame:
  "step a x w = (w', exc) \<Longrightarrow>
     success (store w' a) = success (store w a) \<and>
     (\<forall>b. b \<noteq> a \<longrightarrow> store w' b = store w b) \<and>
     next_addr w' = next_addr w \<and> sink w' = sink w \<and> persist_calls w' = persist_calls w"
  by (cases x) (auto simp: captureEvent_def trackStart_def trackEnd_def)

lemma run_body_frame:
  "run_body a xs w = (w', exc) \<Longrightarrow>
     success (store w' a) = success (store w a) \<and>
     (\<forall>b. b \<noteq> a \<longrightarrow> store w' b = store w b) \<and>
     next_addr w' = next_addr w \<and> sink w' = sink w \<and> persist_calls w' = persist_calls w"
proof (induction xs arbitrary: w)
  case Nil
  then show ?case by simp
next
  case (Cons x xs)
  obtain w1 e1 where s: "step a x w = (w1, e1)" by (cases "step a x w")
  note f = step_frame [OF s]
  show ?case
  proof (cases e1)
    case None
    with Cons.prems s have "run_body a xs w1 = (w', exc)" by simp
    from Cons.IH [OF this] f show ?thesis by simp
  next
    case (Some e)
    with Cons.prems s have "w' = w1" by simp
    with f show ?thesis by simp
  qed
qed

text \<open>A scope leaves the tracker pointing at the record it allocated.\<close>

lemma with_scope_addr:
  assumes "with_scope self body w = (self', w', out)"
  shows "chatbotResponsMetrics self' = Some (next_addr w) \<and> next_addr w' = Suc (next_addr w)"
proof -
  let ?a = "next_addr w"
  let ?self1 = "self\<lparr>chatbotResponsMetrics := Some ?a\<rparr>"
  let ?w1 = "w\<lparr>store := (store w)(?a := new_BotMetrics), next_addr := Suc ?a\<rparr>"
  have en: "enter self w = (?a, ?self1, ?w1)" by (simp add: enter_def Let_def)
  obtain w2 exc where rb: "run_body ?a body ?w1 = (w2, exc)" by (cases "run_body ?a body ?w1")
  from run_body_frame [OF rb] have n: "next_addr w2 = Suc ?a" by simp
  show ?thesis
    using assms n
    by (cases exc; cases "persist self (store w2 ?a) (sink w2)";
        cases "persist self ((store w2 ?a)\<lparr>success := False\<rparr>) (sink w2)")
       (auto simp: with_scope_def en rb exit_scope_def Let_def split: sum.splits)
qed

text \<open>The sample event's computed fields, as in the spec's scenario.\<close>

lemma hello_event_fields:
  "userInputSize (captureEvent hello_event m) = Inr 5"
  "inputMessageType (captureEvent hello_event m) = Inr (PyStr ''text'')"
  "messageSize hi_there = Inr 8"
  by (simp_all add: userInputSize_def inputMessageType_def captureEvent_def
        hello_event_def hi_there_def getitem_def messageSize_def)

lemma ok_scope_evaluates:
  "with_scope console_tracker ok_body empty_world = (tr, w, out) \<Longrightarrow> out = Completed"
  by (auto simp add: with_scope_def console_tracker_def init_tracker_def ok_body_def
        empty_world_def enter_def exit_scope_def Let_def new_BotMetrics_def captureEvent_def
        trackStart_def trackEnd_def ConsoleMetrics_persist_def userInputSize_def
        botOutputSize_def inputMessageType_def userId_def conversationId_def hello_event_def
        hi_there_def getitem_def add_messageSize_def messageSize_def
      split: prod.splits sum.splits)

lemma failed_scope_evaluates:
  "with_scope console_tracker failing_body empty_world = (tr, w, out) \<Longrightarrow>
     out = Completed \<and> event (store w 0) = Some hello_event \<and>
     startTime (store w 0) = Some 10 \<and> endTime (store w 0) = None \<and>
     \<not> success (store w 0)"
  by (auto simp add: with_scope_def console_tracker_def init_tracker_def failing_body_def
        empty_world_def enter_def exit_scope_def Let_def new_BotMetrics_def captureEvent_def
        trackStart_def trackEnd_def ConsoleMetrics_persist_def userInputSize_def
        botOutputSize_def inputMessageType_def userId_def conversationId_def hello_event_def
        hi_there_def getitem_def add_messageSize_def messageSize_def
      split: prod.splits sum.splits)

lemma sample_body_exceptions:
  "body_exception console_tracker ok_body empty_world = None"
  "body_exception console_tracker failing_body empty_world = Some (ProcessingError ''boom'')"
  by (simp_all add: body_exception_def enter_def Let_def ok_body_def failing_body_def
        botOutputSize_def captureEvent_def trackStart_def hello_event_def hi_there_def
        add_messageSize_def messageSize_def)


section \<open>The tracked scope\<close>

text \<open>
  Claim C1. Run a scope with any persistence strategy, any body and from any world. Then
  \<^item> the trace of \<open>persist\<close> calls grows by exactly one entry, the scope's own record as
    it is at exit;
  \<^item> that record has \<open>success\<close> true if the body completed and false if the body raised;
  \<^item> the body's exception never propagates out of the scope;
  \<^item> the scope completes normally whenever the strategy's \<open>persist\<close> returns; the only
    exception that can leave the scope is one that \<open>persist\<close> itself raised on the record.
\<close>

theorem with_scope_persists_once:
  assumes "with_scope self body w = (self', w', out)"
  shows "persist_calls w' = persist_calls w @ [store w' (next_addr w)] \<and>
         (body_exception self body w = None \<longrightarrow> success (store w' (next_addr w))) \<and>
         (body_exception self body w \<noteq> None \<longrightarrow> \<not> success (store w' (next_addr w))) \<and>
         (\<forall>e. out \<noteq> BodyErrorPropagated e) \<and>
         (case persist self (store w' (next_addr w)) (sink w) of
            Inl e \<Rightarrow> out = ExitRaised e \<and> sink w' = sink w
          | Inr s \<Rightarrow> out = Completed \<and> sink w' = s)"
proof -
  let ?a = "next_addr w"
  let ?self1 = "self\<lparr>chatbotResponsMetrics := Some ?a\<rparr>"
  let ?w1 = "w\<lparr>store := (store w)(?a := new_BotMetrics), next_addr := Suc ?a\<rparr>"
  have en: "enter self w = (?a, ?self1, ?w1)" by (simp add: enter_def Let_def)
  obtain w2 exc where rb: "run_body ?a body ?w1 = (w2, exc)" by (cases "run_body ?a body ?w1")
  have be: "body_exception self body w = exc" by (simp add: body_exception_def en rb)
  from run_body_frame [OF rb]
  have f: "success (store w2 ?a)" "sink w2 = sink w" "persist_calls w2 = persist_calls w"
    by (simp_all add: new_BotMetrics_def)
  show ?thesis
    using assms f
    by (cases exc; cases "persist self (store w2 ?a) (sink w)";
        cases "persist self ((store w2 ?a)\<lparr>success := False\<rparr>) (sink w)")
       (auto simp: with_scope_def en rb be exit_scope_def Let_def split: sum.splits)
qed

theorem with_scope_persists_once_witness:
  "body_exception console_tracker ok_body empty_world = None \<and>
   map success (persist_calls (fst (snd (with_scope console_tracker ok_body empty_world)))) =
     [True] \<and>
   snd (snd (with_scope console_tracker ok_body empty_world)) = Completed \<and>
   body_exception console_tracker failing_body empty_world = Some (ProcessingError ''boom'') \<and>
   map success (persist_calls (fst (snd after_failed_scope))) = [False] \<and>
   snd (snd after_failed_scope) = Completed"
proof -
  obtain tr w out where ok: "with_scope console_tracker ok_body empty_world = (tr, w, out)"
    by (cases "with_scope console_tracker ok_body empty_world")
  obtain tr' w' out' where
    bad: "with_scope console_tracker failing_body empty_world = (tr', w', out')"
    by (cases "with_scope console_tracker failing_body empty_world")
  have e: "persist_calls empty_world = []" by (simp add: empty_world_def)
  from with_scope_persists_once [OF ok] sample_body_exceptions(1) e
  have 1: "map success (persist_calls w) = [True]" by simp
  from with_scope_persists_once [OF bad] sample_body_exceptions(2) e
  have 2: "map success (persist_calls w') = [False]" by simp
  from ok_scope_evaluates [OF ok] failed_scope_evaluates [OF bad] 1 2 show ?thesis
    by (simp add: sample_body_exceptions after_failed_scope_def ok bad)
qed

text \<open>
  Claim C9. Entering a scope allocates a record at an address not given out before and
  returns that address, which the tracker keeps. The record is empty: no event, no start
  time, no end time, \<open>success\<close> true. Every other record of the store is left as it was;
  in particular, when the tracker has just run a scope, the record of that scope (still
  the one the tracker pointed at) is a different one.
\<close>

theorem enter_fresh_record:
  assumes "enter self w = (a, self', w')"
  shows "event (store w' a) = None \<and> startTime (store w' a) = None \<and>
         endTime (store w' a) = None \<and> success (store w' a) = True \<and>
         chatbotResponsMetrics self' = Some a \<and>
         a = next_addr w \<and> next_addr w' = Suc a \<and>
         (\<forall>b. b \<noteq> a \<longrightarrow> store w' b = store w b) \<and>
         (\<forall>self0 body w0 out.
            with_scope self0 body w0 = (self, w, out) \<longrightarrow>
              chatbotResponsMetrics self = Some (next_addr w0) \<and> next_addr w0 \<noteq> a)"
proof -
  have "\<And>self0 body w0 out. with_scope self0 body w0 = (self, w, out) \<Longrightarrow>
          chatbotResponsMetrics self = Some (next_addr w0) \<and> next_addr w0 \<noteq> a"
    using assms with_scope_addr by (fastforce simp: enter_def Let_def)
  then show ?thesis
    using assms by (auto simp: enter_def Let_def new_BotMetrics_def)
qed

theorem enter_fresh_record_witness:
  "fst second_entry = 1 \<and>
   chatbotResponsMetrics (fst after_failed_scope) = Some 0 \<and>
   event (store (snd (snd second_entry)) 1) = None \<and>
   startTime (store (snd (snd second_entry)) 1) = None \<and>
   endTime (store (snd (snd second_entry)) 1) = None \<and>
   success (store (snd (snd second_entry)) 1) = True \<and>
   event (store (snd (snd second_entry)) 0) = Some hello_event \<and>
   startTime (store (snd (snd second_entry)) 0) = Some 10 \<and>
   success (store (snd (snd second_entry)) 0) = False"
proof -
  obtain tr w out where
    bad: "with_scope console_tracker failing_body empty_world = (tr, w, out)"
    by (cases "with_scope console_tracker failing_body empty_world")
  obtain a tr' w' where en: "enter tr w = (a, tr', w')"
    by (cases "enter tr w")
  have se: "second_entry = (a, tr', w')"
    by (simp add: second_entry_def after_failed_scope_def bad en)
  have n0: "next_addr empty_world = 0" by (simp add: empty_world_def)
  note fresh = enter_fresh_record [OF en]
  from with_scope_addr [OF bad] n0 have prev: "chatbotResponsMetrics tr = Some 0"
    and nw: "next_addr w = 1" by simp_all
  from fresh nw have a: "a = 1" by simp
  from fresh have new: "event (store w' a) = None" "startTime (store w' a) = None"
    "endTime (store w' a) = None" "success (store w' a) = True"
    by blast+
  from fresh a have same: "store w' 0 = store w 0" by simp
  from failed_scope_evaluates [OF bad]
  have old: "event (store w 0) = Some hello_event" "startTime (store w 0) = Some 10"
    and failed: "\<not> success (store w 0)"
    by simp_all
  from new [unfolded a] old failed prev show ?thesis
    by (simp add: se a same after_failed_scope_def bad)
qed


section \<open>The console strategy\<close>

text \<open>
  Claim C2, as the code has it. The console strategy's \<open>persist\<close> completes, printing one
  table with one row, on every record whose start time is set and whose event is captured
  with a payload that holds a \<open>type\<close> and a sized \<open>text\<close> and with replies whose sizes
  can all be read. The end time may be unset: the last cell then shows the response time
  \<open>0\<close>.
\<close>

theorem ConsoleMetrics_persist_populated:
  assumes "startTime m = Some t"
    and "event m = Some ev"
    and "event_payload ev ''type'' = Some ty"
    and "event_payload ev ''text'' = Some v"
    and "py_len v = Inr n"
    and "list_all2 (\<lambda>r k. messageSize r = Inr k) (botReply ev) ks"
  shows "ConsoleMetrics_persist rnd m out =
           Inr (out @
             [\<lparr>field_names = console_field_names,
               rows = [[FloatCell (rnd t),
                        GlyphCell (if success m then CheckMark else RedCircle),
                        StrCell (event_conversationId ev),
                        StrCell (event_userId ev),
                        AnyCell ty,
                        IntCell n,
                        IntCell (sum_list ks),
                        InferenceCell (round2_number rnd (responseTime m))]]\<rparr>])"
proof -
  have "botOutputSize m = Inr (sum_list ks)"
    using reduce_add_messageSize [OF assms(6), of 0] assms(2) by (simp add: botOutputSize_def)
  moreover have "userInputSize m = Inr n"
    using assms(2,4,5) by (simp add: userInputSize_def getitem_def)
  moreover have "inputMessageType m = Inr ty"
    using assms(2,3) by (simp add: inputMessageType_def getitem_def)
  moreover have "conversationId m = Inr (event_conversationId ev)"
    and "userId m = Inr (event_userId ev)"
    using assms(2) by (simp_all add: conversationId_def userId_def)
  ultimately show ?thesis
    using assms(1) by (simp add: ConsoleMetrics_persist_def)
qed

theorem ConsoleMetrics_persist_populated_witness:
  "startTime started_metrics = Some 10 \<and> endTime started_metrics = None \<and>
   event started_metrics = Some hello_event \<and>
   ConsoleMetrics_persist (\<lambda>x. x) started_metrics [] =
     Inr [\<lparr>field_names = console_field_names,
           rows = [[FloatCell 10, GlyphCell CheckMark, StrCell ''conv-1'', StrCell ''user-1'',
                    AnyCell (PyStr ''text''), IntCell 5, IntCell 8, InferenceCell (PInt 0)]]\<rparr>]"
proof -
  have s: "startTime started_metrics = Some 10" and e: "endTime started_metrics = None"
    and ev: "event started_metrics = Some hello_event"
    and ok: "success started_metrics"
    by (simp_all add: started_metrics_def trackStart_def captureEvent_def new_BotMetrics_def)
  have ty: "event_payload hello_event ''type'' = Some (PyStr ''text'')"
    and tx: "event_payload hello_event ''text'' = Some (PyStr ''hello'')"
    by (simp_all add: hello_event_def)
  have ln: "py_len (PyStr ''hello'') = Inr 5" by simp
  have rs: "list_all2 (\<lambda>r k. messageSize r = Inr k) (botReply hello_event) [8]"
    by (simp add: hello_event_def hello_event_fields(3))
  have rt: "responseTime started_metrics = PInt 0"
    using e by (simp add: responseTime_def)
  from ConsoleMetrics_persist_populated [OF s ev ty tx ln rs, of "\<lambda>x. x" "[]"] s e ev ok rt
  show ?thesis by (simp add: hello_event_def)
qed

text \<open>
  The claim as the spec states it fails on the record a scope starts with: the first cell
  of the row is \<open>round(metrics.startTime, 2)\<close>, and rounding \<open>None\<close> raises.
\<close>

theorem ConsoleMetrics_persist_fresh_raises:
  "ConsoleMetrics_persist (\<lambda>x::real. x) new_BotMetrics [] = Inl TypeError"
  by (simp add: ConsoleMetrics_persist_def new_BotMetrics_def)


section \<open>Message construction\<close>

text \<open>
  Claim C3, as the code has it. A \<open>BotButtonMessage\<close> constructed without \<open>choices\<close>
  fails with \<open>ValidationError\<close>; constructed with any list of choices, the empty list
  included, it succeeds and holds that list.
\<close>

theorem button_choices_required:
  "new_BotButtonMessage txt None act = Inl ValidationError \<and>
   (\<exists>b. new_BotButtonMessage txt (Some cs) act = Inr b \<and> button_choices b = cs)"
  by (simp add: new_BotButtonMessage_def)

text \<open>The claim as the spec states it fails: the empty list of choices is accepted.\<close>

theorem button_empty_choices_accepted:
  "new_BotButtonMessage None (Some []) None =
     Inr \<lparr>button_text = '''', button_choices = [], button_active = True\<rparr>"
  by (simp add: new_BotButtonMessage_def)

text \<open>
  Claim C4, as the code has it. The two fields of a \<open>BotMessage\<close> are validated apart:
  \<open>type\<close> against the enum, \<open>payload\<close> against the union, and the outcome of the
  one never depends on the other. A \<open>type\<close> string that is one of the enum's values
  is taken as the member it names. With \<open>type\<close> an enum member:
  \<^item> an instance of any of the five message classes is accepted and held as given;
  \<^item> a dict is accepted exactly when the union validation builds an instance from it, and
    that instance is held;
  \<^item> a payload that is neither an instance nor a dict fails with \<open>ValidationError\<close>.

  A \<open>type\<close> string that is not a value of the enum fails with \<open>ValidationError\<close>
  whatever the payload.
\<close>

theorem BotMessage_fields_validated_apart:
  "new_BotMessage u (Some (Member t)) (Some (Instance p)) =
     Inr \<lparr>message_type = Member t, message_payload = Model p\<rparr> \<and>
   (BotMessageTypes_of_value s = Some t \<longrightarrow>
      new_BotMessage u (Some (TypeStr s)) pl = new_BotMessage u (Some (Member t)) pl) \<and>
   (u d = Some p \<longrightarrow>
      new_BotMessage u (Some (Member t)) (Some (DictArg d)) =
        Inr \<lparr>message_type = Member t, message_payload = Model p\<rparr>) \<and>
   (u d = None \<longrightarrow> new_BotMessage u ty (Some (DictArg d)) = Inl ValidationError) \<and>
   new_BotMessage u ty (Some (ValueArg v)) = Inl ValidationError \<and>
   (BotMessageTypes_of_value s = None \<longrightarrow>
      new_BotMessage u (Some (TypeStr s)) pl = Inl ValidationError)"
  by (auto simp: new_BotMessage_def split: sum.splits dest: validate_type_error)

theorem BotMessage_fields_validated_apart_witness:
  "BotMessageTypes_of_value ''video'' = None \<and>
   new_BotMessage sample_union (Some (TypeStr ''video'')) (Some (Instance (TextMessage abc_text))) =
     Inl ValidationError \<and>
   BotMessageTypes_of_value ''button'' = Some T_button \<and>
   new_BotMessage sample_union (Some (TypeStr ''button''))
       (Some (Instance (ImageMessage \<lparr>url = ''http://example.org/a.png''\<rparr>))) =
     Inr \<lparr>message_type = Member T_button,
          message_payload = Model (ImageMessage \<lparr>url = ''http://example.org/a.png''\<rparr>)\<rparr> \<and>
   new_BotMessage sample_union (Some (Member T_image)) (Some (DictArg hi_dict)) =
     Inr \<lparr>message_type = Member T_image,
          message_payload = Model (TextMessage \<lparr>message_text = ''hi'', useMarkdown = True\<rparr>)\<rparr> \<and>
   new_BotMessage sample_union (Some (Member T_text)) (Some (DictArg mistyped_dict)) =
     Inl ValidationError \<and>
   new_BotMessage sample_union (Some (Member T_text)) (Some (ValueArg (PyStr ''hi''))) =
     Inl ValidationError"
proof -
  have v: "BotMessageTypes_of_value ''video'' = None"
    and b: "BotMessageTypes_of_value ''button'' = Some T_button"
    by (simp_all add: BotMessageTypes_of_value_def)
  note d = sample_union_dicts
  from BotMessage_fields_validated_apart
         [where u = sample_union and t = T_button and s = "''button''"
            and p = "ImageMessage \<lparr>url = ''http://example.org/a.png''\<rparr>"
            and pl = "Some (Instance (ImageMessage \<lparr>url = ''http://example.org/a.png''\<rparr>))"] b
  have 1: "new_BotMessage sample_union (Some (TypeStr ''button''))
             (Some (Instance (ImageMessage \<lparr>url = ''http://example.org/a.png''\<rparr>))) =
           Inr \<lparr>message_type = Member T_button,
                message_payload = Model (ImageMessage \<lparr>url = ''http://example.org/a.png''\<rparr>)\<rparr>"
    by simp
  from BotMessage_fields_validated_apart
         [where u = sample_union and t = T_image and d = hi_dict
            and p = "TextMessage \<lparr>message_text = ''hi'', useMarkdown = True\<rparr>"] d(1)
  have 2: "new_BotMessage sample_union (Some (Member T_image)) (Some (DictArg hi_dict)) =
           Inr \<lparr>message_type = Member T_image,
                message_payload =
                  Model (TextMessage \<lparr>message_text = ''hi'', useMarkdown = True\<rparr>)\<rparr>"
    by blast
  from BotMessage_fields_validated_apart
         [where u = sample_union and d = mistyped_dict and ty = "Some (Member T_text)"] d(2)
  have 3: "new_BotMessage sample_union (Some (Member T_text)) (Some (DictArg mistyped_dict)) =
           Inl ValidationError"
    by blast
  from BotMessage_fields_validated_apart
         [where u = sample_union and ty = "Some (Member T_text)" and v = "PyStr ''hi''"]
  have 4: "new_BotMessage sample_union (Some (Member T_text)) (Some (ValueArg (PyStr ''hi''))) =
           Inl ValidationError"
    by blast
  from BotMessage_fields_validated_apart
         [where u = sample_union and s = "''video''"
            and pl = "Some (Instance (TextMessage abc_text))"] v
  have 5: "new_BotMessage sample_union (Some (TypeStr ''video''))
             (Some (Instance (TextMessage abc_text))) = Inl ValidationError"
    by blast
  from v b 1 2 3 4 5 show ?thesis by simp
qed

text \<open>
  The claim as the spec states it fails: an image tag with a text payload constructs, and
  the two do not agree.
\<close>

theorem BotMessage_mismatch_accepted:
  "new_BotMessage sample_union (Some (Member T_image))
       (Some (Instance (TextMessage \<lparr>message_text = ''hi'', useMarkdown = True\<rparr>))) =
     Inr \<lparr>message_type = Member T_image,
          message_payload = Model (TextMessage \<lparr>message_text = ''hi'', useMarkdown = True\<rparr>)\<rparr> \<and>
   \<not> shape_matches T_image (TextMessage \<lparr>message_text = ''hi'', useMarkdown = True\<rparr>)"
  by (simp add: new_BotMessage_def)


section \<open>Computed fields\<close>

text \<open>
  Claim C5, where the code departs from it. A message constructed with a text payload and
  the \<open>type\<close> left out is a text message: \<open>type\<close> takes its declared default
  \<open>"text"\<close>. The default is the string, stored as it is, and \<open>messageSize\<close> compares
  \<open>self.type\<close> with the enum member \<open>BotMessageTypes.text\<close>, from which a string
  always differs. So the size is 0, not the length 3 of the payload's text; the same
  payload under the enum member has size 3.
\<close>

theorem messageSize_default_type_is_zero:
  "new_BotMessage u None (Some (Instance (TextMessage abc_text))) =
     Inr \<lparr>message_type = TypeStr ''text'', message_payload = Model (TextMessage abc_text)\<rparr> \<and>
   message_text abc_text = ''abc'' \<and>
   messageSize \<lparr>message_type = TypeStr ''text'',
                message_payload = Model (TextMessage abc_text)\<rparr> = Inr 0 \<and>
   messageSize \<lparr>message_type = Member T_text,
                message_payload = Model (TextMessage abc_text)\<rparr> = Inr 3"
  by (simp add: new_BotMessage_def messageSize_def abc_text_def)

text \<open>
  Claim C6. With both times set, \<open>responseTime\<close> is the end time minus the start time;
  with either unset it is 0.
\<close>

theorem responseTime_difference:
  "(startTime m = Some s \<and> endTime m = Some e \<longrightarrow> responseTime m = PFloat (e - s)) \<and>
   (startTime m = None \<or> endTime m = None \<longrightarrow> responseTime m = PInt 0)"
  by (auto simp: responseTime_def)

theorem responseTime_difference_witness:
  "startTime timed_metrics = Some 1.5 \<and> endTime timed_metrics = Some 4 \<and>
   responseTime timed_metrics = PFloat 2.5 \<and>
   endTime started_metrics = None \<and>
   responseTime started_metrics = PInt 0"
proof -
  have s: "startTime timed_metrics = Some 1.5" and e: "endTime timed_metrics = Some 4"
    by (simp_all add: timed_metrics_def)
  have n: "endTime started_metrics = None"
    by (simp add: started_metrics_def trackStart_def captureEvent_def new_BotMetrics_def)
  from responseTime_difference [of timed_metrics "1.5" 4] s e
  have "responseTime timed_metrics = PFloat (4 - 1.5)" by blast
  moreover from responseTime_difference [of started_metrics] n
  have "responseTime started_metrics = PInt 0" by blast
  ultimately show ?thesis using s e n by simp
qed

text \<open>
  Claim C7. With an event captured, \<open>botOutputSize\<close> is the sum of the \<open>messageSize\<close>
  of the event's replies, whatever their number; for no replies it is 0.
\<close>

theorem botOutputSize_sum:
  assumes "event m = Some ev"
    and "list_all2 (\<lambda>r n. messageSize r = Inr n) (botReply ev) ns"
  shows "botOutputSize m = Inr (sum_list ns)"
  using reduce_add_messageSize [OF assms(2), of 0] assms(1)
  by (simp add: botOutputSize_def)

theorem botOutputSize_sum_witness:
  "botOutputSize started_metrics = Inr 8 \<and>
   botOutputSize (captureEvent (hello_event\<lparr>botReply := []\<rparr>) started_metrics) = Inr 0 \<and>
   botOutputSize (captureEvent (hello_event\<lparr>botReply := [hi_there, picture, hi_there]\<rparr>)
                    started_metrics) = Inr 16"
proof -
  have p: "messageSize picture = Inr 0" by (simp add: messageSize_def picture_def)
  have ev: "event started_metrics = Some hello_event"
    by (simp add: started_metrics_def trackStart_def captureEvent_def)
  have "list_all2 (\<lambda>r n. messageSize r = Inr n) (botReply hello_event) [8]"
    by (simp add: hello_event_def hello_event_fields(3))
  from botOutputSize_sum [OF ev this]
  have 1: "botOutputSize started_metrics = Inr 8" by simp
  have "botOutputSize (captureEvent (hello_event\<lparr>botReply := []\<rparr>) started_metrics) =
          Inr (sum_list [])"
    by (rule botOutputSize_sum [of _ "hello_event\<lparr>botReply := []\<rparr>"])
       (simp_all add: captureEvent_def)
  then have 2: "botOutputSize (captureEvent (hello_event\<lparr>botReply := []\<rparr>) started_metrics) =
                  Inr 0"
    by simp
  have "botOutputSize (captureEvent (hello_event\<lparr>botReply := [hi_there, picture, hi_there]\<rparr>)
                         started_metrics) = Inr (sum_list [8, 0, 8])"
    by (rule botOutputSize_sum
              [of _ "hello_event\<lparr>botReply := [hi_there, picture, hi_there]\<rparr>"])
       (simp_all add: captureEvent_def hello_event_fields(3) p)
  with 1 2 show ?thesis by simp
qed

text \<open>
  Claim C8. On a record whose event is unset, reading \<open>userInputSize\<close>,
  \<open>botOutputSize\<close> or \<open>inputMessageType\<close> raises: each reads an attribute of the event,
  which is \<open>None\<close>.
\<close>

theorem unset_event_reads_fail:
  assumes "event m = None"
  shows "userInputSize m = Inl AttributeError \<and>
         botOutputSize m = Inl AttributeError \<and>
         inputMessageType m = Inl AttributeError"
  using assms by (simp add: userInputSize_def botOutputSize_def inputMessageType_def)

theorem unset_event_reads_fail_witness:
  "event (new_BotMetrics :: real BotMetrics) = None \<and>
   userInputSize (new_BotMetrics :: real BotMetrics) = Inl AttributeError \<and>
   botOutputSize (new_BotMetrics :: real BotMetrics) = Inl AttributeError \<and>
   inputMessageType (new_BotMetrics :: real BotMetrics) = Inl AttributeError"
proof -
  have n: "event (new_BotMetrics :: real BotMetrics) = None"
    by (simp add: new_BotMetrics_def)
  from unset_event_reads_fail [OF n] n show ?thesis by simp
qed


section \<open>Mutators\<close>

text \<open>
  Claim C10. Each mutator writes one stored field and leaves the other three as they
  were: \<open>trackStart\<close> writes \<open>startTime\<close>, \<open>trackEnd\<close> writes \<open>endTime\<close>,
  \<open>captureEvent\<close> writes \<open>event\<close>; none of them changes \<open>success\<close>.
\<close>

theorem mutators_frame:
  "startTime (trackStart now m) = Some now \<and>
   event (trackStart now m) = event m \<and>
   endTime (trackStart now m) = endTime m \<and>
   success (trackStart now m) = success m \<and>
   endTime (trackEnd now m) = Some now \<and>
   event (trackEnd now m) = event m \<and>
   startTime (trackEnd now m) = startTime m \<and>
   success (trackEnd now m) = success m \<and>
   event (captureEvent ev m) = Some ev \<and>
   startTime (captureEvent ev m) = startTime m \<and>
   endTime (captureEvent ev m) = endTime m \<and>
   success (captureEvent ev m) = success m"
  by (simp add: trackStart_def trackEnd_def captureEvent_def)

end
